theory Spec2Isabelle
  imports Complex_Main
begin

section \<open>JavaScript numbers and values\<close>

text \<open>
  The engine computes with JavaScript numbers.  A number is modelled as an exact
  rational or one of the three special values; the \<open>Infinity\<close> that the code uses as its
  "never" marker is \<open>PosInf\<close>.  Arithmetic follows the IEEE rules for the special values
  and is exact on finite ones: binary64 rounding, overflow and underflow are not part of
  the model, and the two zeros are identified.
\<close>

datatype jsnum = NaN | PosInf | NegInf | Fin rat

fun js_neg :: "jsnum \<Rightarrow> jsnum" where
  "js_neg NaN = NaN"
| "js_neg PosInf = NegInf"
| "js_neg NegInf = PosInf"
| "js_neg (Fin a) = Fin (- a)"

fun js_add :: "jsnum \<Rightarrow> jsnum \<Rightarrow> jsnum" where
  "js_add (Fin a) (Fin b) = Fin (a + b)"
| "js_add NaN _ = NaN"
| "js_add _ NaN = NaN"
| "js_add PosInf NegInf = NaN"
| "js_add NegInf PosInf = NaN"
| "js_add PosInf _ = PosInf"
| "js_add _ PosInf = PosInf"
| "js_add NegInf _ = NegInf"
| "js_add _ NegInf = NegInf"

definition js_sub :: "jsnum \<Rightarrow> jsnum \<Rightarrow> jsnum" where
  "js_sub a b = js_add a (js_neg b)"

fun js_sign :: "jsnum \<Rightarrow> int" where
  "js_sign NaN = 0"
| "js_sign PosInf = 1"
| "js_sign NegInf = - 1"
| "js_sign (Fin a) = (if a > 0 then 1 else if a < 0 then - 1 else 0)"

definition signed_inf :: "int \<Rightarrow> jsnum" where
  "signed_inf s = (if s = 0 then NaN else if s > 0 then PosInf else NegInf)"

fun js_mul :: "jsnum \<Rightarrow> jsnum \<Rightarrow> jsnum" where
  "js_mul (Fin a) (Fin b) = Fin (a * b)"
| "js_mul NaN _ = NaN"
| "js_mul _ NaN = NaN"
| "js_mul a b = signed_inf (js_sign a * js_sign b)"

fun js_div :: "jsnum \<Rightarrow> jsnum \<Rightarrow> jsnum" where
  "js_div (Fin a) (Fin b) = (if b = 0 then signed_inf (js_sign (Fin a)) else Fin (a / b))"
| "js_div NaN _ = NaN"
| "js_div _ NaN = NaN"
| "js_div (Fin a) _ = Fin 0"
| "js_div a (Fin b) = signed_inf (js_sign a * (if b < 0 then - 1 else 1))"
| "js_div _ _ = NaN"

fun js_lt :: "jsnum \<Rightarrow> jsnum \<Rightarrow> bool" where
  "js_lt (Fin a) (Fin b) = (a < b)"
| "js_lt NaN _ = False"
| "js_lt _ NaN = False"
| "js_lt _ NegInf = False"
| "js_lt PosInf _ = False"
| "js_lt _ _ = True"

fun js_le :: "jsnum \<Rightarrow> jsnum \<Rightarrow> bool" where
  "js_le (Fin a) (Fin b) = (a \<le> b)"
| "js_le NaN _ = False"
| "js_le _ NaN = False"
| "js_le NegInf _ = True"
| "js_le _ PosInf = True"
| "js_le _ _ = False"

definition js_gt :: "jsnum \<Rightarrow> jsnum \<Rightarrow> bool" where
  "js_gt a b = js_lt b a"

definition js_ge :: "jsnum \<Rightarrow> jsnum \<Rightarrow> bool" where
  "js_ge a b = js_le b a"

text \<open>\<open>Math.ceil\<close>.\<close>

fun js_ceil :: "jsnum \<Rightarrow> jsnum" where
  "js_ceil (Fin a) = Fin (of_int \<lceil>a\<rceil>)"
| "js_ceil x = x"

text \<open>A number is falsy when it is zero or \<open>NaN\<close>.\<close>

definition truthy_num :: "jsnum \<Rightarrow> bool" where
  "truthy_num n = (n \<noteq> NaN \<and> n \<noteq> Fin 0)"

text \<open>
  A value bag is an object that holds raw form values: numbers, strings, booleans, and
  \<open>null\<close> or \<open>undefined\<close> (one constructor, the code treats them alike).  What the
  engine computes with, and what a field declares as its default, is a number or a
  boolean.
\<close>

datatype jsval = VNum jsnum | VStr string | VBool bool | VNull

datatype scalar = SNum jsnum | SBool bool

type_synonym bag = "string \<rightharpoonup> jsval"

fun truthy_val :: "jsval \<Rightarrow> bool" where
  "truthy_val (VNum n) = truthy_num n"
| "truthy_val (VStr s) = (s \<noteq> [])"
| "truthy_val (VBool b) = b"
| "truthy_val VNull = False"

fun truthy :: "scalar \<Rightarrow> bool" where
  "truthy (SNum n) = truthy_num n"
| "truthy (SBool b) = b"

text \<open>The implicit \<open>ToNumber\<close> of the arithmetic operators.\<close>

fun toNumber :: "scalar \<Rightarrow> jsnum" where
  "toNumber (SNum n) = n"
| "toNumber (SBool b) = Fin (if b then 1 else 0)"

subsection \<open>parseFloat\<close>

text \<open>
  The built-in \<open>parseFloat\<close> on ASCII strings: leading white space is skipped, then the
  longest prefix that is a signed decimal literal (or \<open>Infinity\<close>) is read; with no such
  prefix the result is \<open>NaN\<close>.  The literal denotes its exact decimal value.
\<close>

definition is_white :: "char \<Rightarrow> bool" where
  "is_white c = (c = CHR '' '' \<or> c = CHR 0x09 \<or> c = CHR 0x0A \<or> c = CHR 0x0B
     \<or> c = CHR 0x0C \<or> c = CHR 0x0D)"

text \<open>The value of a decimal digit: its position in the string of the ten digits.\<close>

definition digit_of :: "char \<Rightarrow> nat option" where
  "digit_of c = map_of (zip ''0123456789'' [0 ..< 10]) c"

fun take_digits :: "string \<Rightarrow> nat list \<times> string" where
  "take_digits [] = ([], [])"
| "take_digits (c # cs) =
    (case digit_of c of
       None \<Rightarrow> ([], c # cs)
     | Some d \<Rightarrow> (case take_digits cs of (ds, r) \<Rightarrow> (d # ds, r)))"

definition digits_val :: "nat list \<Rightarrow> nat" where
  "digits_val ds = foldl (\<lambda>a d. 10 * a + d) 0 ds"

fun starts_with :: "string \<Rightarrow> string \<Rightarrow> bool" where
  "starts_with [] s = True"
| "starts_with (p # ps) [] = False"
| "starts_with (p # ps) (c # cs) = (p = c \<and> starts_with ps cs)"

fun take_sign :: "string \<Rightarrow> bool \<times> string" where
  "take_sign [] = (False, [])"
| "take_sign (c # cs) =
    (if c = CHR ''-'' then (True, cs) else if c = CHR ''+'' then (False, cs)
     else (False, c # cs))"

text \<open>The exponent part counts only when at least one digit follows it.\<close>

fun exponent_part :: "string \<Rightarrow> bool \<times> nat" where
  "exponent_part [] = (False, 0)"
| "exponent_part (c # cs) =
    (if c = CHR ''e'' \<or> c = CHR ''E'' then
       (case take_sign cs of (neg, r) \<Rightarrow>
          (case take_digits r of (ds, _) \<Rightarrow> (neg, digits_val ds)))
     else (False, 0))"

definition parseFloat :: "string \<Rightarrow> jsnum" where
  "parseFloat s =
    (case take_sign (dropWhile is_white s) of (neg, s2) \<Rightarrow>
       if starts_with ''Infinity'' s2 then (if neg then NegInf else PosInf)
       else
         (case take_digits s2 of (ip, r1) \<Rightarrow>
           (case (case r1 of [] \<Rightarrow> ([], [])
                  | c # r \<Rightarrow> if c = CHR ''.'' then take_digits r else ([], r1)) of
              (fp, r2) \<Rightarrow>
                if ip = [] \<and> fp = [] then NaN
                else
                  (case exponent_part r2 of (eneg, e) \<Rightarrow>
                    let m = of_nat (digits_val (ip @ fp)) / 10 ^ length fp;
                        v = (if eneg then m / 10 ^ e else m * 10 ^ e)
                    in Fin (if neg then - v else v)))))"

subsection \<open>Field lookup\<close>

text \<open>
  \<open>parseFloat\<close> applied to a value of the bag: the value is first turned into its string.
  The string of a number parses back to that number; \<open>true\<close>, \<open>false\<close>, \<open>null\<close> and
  \<open>undefined\<close> have no numeric prefix.
\<close>

fun parseFloatOf :: "jsval \<Rightarrow> jsnum" where
  "parseFloatOf (VNum n) = n"
| "parseFloatOf (VStr s) = parseFloat s"
| "parseFloatOf (VBool b) = parseFloat (if b then ''true'' else ''false'')"
| "parseFloatOf VNull = parseFloat ''null''"

text \<open>
  \<open>getValue(data, key, defaultValue)\<close>: a missing key gives the default; a value of type
  number is returned as it is; any other value goes through
  \<open>parseFloat(value) || defaultValue\<close>.
\<close>

definition getValue :: "bag \<Rightarrow> string \<Rightarrow> scalar \<Rightarrow> scalar" where
  "getValue data key defaultValue =
    (case data key of
       None \<Rightarrow> defaultValue
     | Some v \<Rightarrow>
        (case v of
           VNum n \<Rightarrow> SNum n
         | _ \<Rightarrow>
            (let p = parseFloatOf v
             in if truthy_num p then SNum p else defaultValue)))"

section \<open>Project-type schemas (config.js)\<close>

text \<open>
  One input field of a template.  Only the attributes that the registry and the engine
  read are kept (\<open>unit\<close>, \<open>min\<close> and \<open>max\<close> of a field, \<open>description\<close> and \<open>icon\<close>
  of a template are used by the forms alone).
  A declared default is a number or a boolean, as in \<open>CATEGORY_SCHEMA\<close> and in every
  built-in template; \<open>None\<close> is a field with no \<open>defaultValue\<close>.
\<close>

record field =
  field_id :: string
  field_name :: string
  field_type :: string
  defaultValue :: "scalar option"
  field_group :: "string option"

text \<open>
  A template as the registry may hold it.  \<open>importConfiguration\<close> stores entries that
  failed validation, so the parts that \<open>validateProjectTypeConfig\<close> inspects are
  optional: \<open>None\<close> stands for a property that is missing or has the wrong JavaScript
  type (an id or name that is not a string, categories that are not an object, a
  category that is not an array).
\<close>

record categories =
  c_investment :: "field list option"
  c_revenue :: "field list option"
  c_operating :: "field list option"
  c_staffing :: "field list option"

record config =
  cfg_id :: "string option"
  cfg_name :: "string option"
  businessType :: "string option"
  categories :: "categories option"

datatype error =
    UnknownProjectType string
  | CannotOverrideDefault string
  | CannotDeleteDefault string
  | InvalidId
  | InvalidName
  | MissingCategories
  | CategoryNotArray string
  | TemplateNotFound string
  | TypeError

text \<open>\<open>field.defaultValue || 0\<close>\<close>

definition defaultOr0 :: "field \<Rightarrow> scalar" where
  "defaultOr0 f =
    (case defaultValue f of
       None \<Rightarrow> SNum (Fin 0)
     | Some v \<Rightarrow> if truthy v then v else SNum (Fin 0))"

subsection \<open>String helpers\<close>

fun includes_str :: "string \<Rightarrow> string \<Rightarrow> bool" where
  "includes_str [] p = (p = [])"
| "includes_str (c # cs) p = (starts_with p (c # cs) \<or> includes_str cs p)"

definition endsWith :: "string \<Rightarrow> string \<Rightarrow> bool" where
  "endsWith s p = starts_with (rev p) (rev s)"

text \<open>\<open>toLowerCase\<close> on the ASCII letters.\<close>

definition lower_char :: "char \<Rightarrow> char" where
  "lower_char c =
    (let n = (of_char c :: nat) in if 65 \<le> n \<and> n \<le> 90 then char_of (n + 32) else c)"

definition toLowerCase :: "string \<Rightarrow> string" where
  "toLowerCase s = map lower_char s"

text \<open>\<open>id.replace(/Sal$/, '')\<close>\<close>

definition stripSal :: "string \<Rightarrow> string" where
  "stripSal s = (if endsWith s ''Sal'' then take (length s - 3) s else s)"

text \<open>\<open>s.replace(pat, '')\<close> with a string pattern: the first occurrence is removed.\<close>

fun removeFirst :: "string \<Rightarrow> string \<Rightarrow> string" where
  "removeFirst pat [] = []"
| "removeFirst pat (c # cs) =
    (if starts_with pat (c # cs) then drop (length pat) (c # cs)
     else c # removeFirst pat cs)"

section \<open>The calculation engine (calculations.js)\<close>

text \<open>
  The sources hold three copies of \<open>PLCalculationEngine\<close>: two in \<open>calculations.js\<close> and a
  later one that adds further revenue formulas and staffing special cases.  The functions
  \<open>getValue\<close>, \<open>calculatePadelRevenue\<close>, \<open>calculateGymRevenue\<close>, \<open>calculateROI\<close>,
  \<open>calculateInvestment\<close>, \<open>getCalculation\<close> and \<open>calculateCombinedPL\<close> are the same text in
  all three.  This section follows the first copy.
\<close>

record revenueResult =
  annual :: jsnum
  monthly :: jsnum
  daily :: jsnum

record costsResult =
  cost_annual :: jsnum
  cost_monthly :: jsnum
  operating :: jsnum
  staffing :: jsnum

text \<open>
  The two returns of \<open>calculateROI\<close> have different shapes: only the second one carries
  \<open>investment\<close> and \<open>annualProfit\<close>.
\<close>

record roiResult =
  paybackYears :: jsnum
  roiPercentage :: jsnum
  breakEvenMonth :: jsnum
  roi_investment :: "jsnum option"
  roi_annualProfit :: "jsnum option"

subsection \<open>Revenue\<close>

definition calculatePadelRevenue :: "field list option \<Rightarrow> bag \<Rightarrow> jsnum" where
  "calculatePadelRevenue config data =
    (let peakHours = toNumber (getValue data ''peakHours'' (SNum (Fin 0)));
         peakRate = toNumber (getValue data ''peakRate'' (SNum (Fin 0)));
         peakUtil = js_div (toNumber (getValue data ''peakUtil'' (SNum (Fin 0)))) (Fin 100);
         offHours = toNumber (getValue data ''offHours'' (SNum (Fin 0)));
         offRate = toNumber (getValue data ''offRate'' (SNum (Fin 0)));
         offUtil = js_div (toNumber (getValue data ''offUtil'' (SNum (Fin 0)))) (Fin 100);
         courts = toNumber (getValue data ''courts'' (SNum (Fin 1)));
         days = toNumber (getValue data ''days'' (SNum (Fin 7)));
         weeks = toNumber (getValue data ''weeks'' (SNum (Fin 52)));
         peakRevenue =
           js_mul (js_mul (js_mul (js_mul (js_mul peakHours peakRate) days) weeks) courts) peakUtil;
         offRevenue =
           js_mul (js_mul (js_mul (js_mul (js_mul offHours offRate) days) weeks) courts) offUtil
     in js_add peakRevenue offRevenue)"

text \<open>The body of the loop \<open>for (month = 1; month <= 12; month++)\<close>.\<close>

definition rampMonth :: "jsnum \<Rightarrow> jsnum \<Rightarrow> jsnum \<Rightarrow> jsnum \<Rightarrow> nat \<Rightarrow> jsnum" where
  "rampMonth rampDuration rampEffect monthlyBase adjustedRevenue month =
    (if js_le (Fin (of_nat month)) rampDuration
     then js_add adjustedRevenue (js_mul monthlyBase rampEffect)
     else js_add adjustedRevenue monthlyBase)"

definition calculateGymRevenue :: "field list option \<Rightarrow> bag \<Rightarrow> jsnum" where
  "calculateGymRevenue config data =
    (let weeklyRevenue =
           js_mul (js_mul (toNumber (getValue data ''weekMembers'' (SNum (Fin 0))))
                          (toNumber (getValue data ''weekFee'' (SNum (Fin 0))))) (Fin 52);
         monthlyRevenue =
           js_mul (js_mul (toNumber (getValue data ''monthMembers'' (SNum (Fin 0))))
                          (toNumber (getValue data ''monthFee'' (SNum (Fin 0))))) (Fin 12);
         annualRevenue =
           js_mul (toNumber (getValue data ''annualMembers'' (SNum (Fin 0))))
                  (toNumber (getValue data ''annualFee'' (SNum (Fin 0))));
         totalRevenue = js_add (js_add weeklyRevenue monthlyRevenue) annualRevenue
     in if truthy (getValue data ''rampUp'' (SBool False)) then
          (let rampDuration = toNumber (getValue data ''rampDuration'' (SNum (Fin 0)));
               rampEffect =
                 js_div (toNumber (getValue data ''rampEffect'' (SNum (Fin 100)))) (Fin 100);
               monthlyBase = js_div totalRevenue (Fin 12)
           in foldl (rampMonth rampDuration rampEffect monthlyBase) (Fin 0) [1 ..< 13])
        else totalRevenue)"

definition calculateGenericRevenue :: "field list \<Rightarrow> bag \<Rightarrow> jsnum" where
  "calculateGenericRevenue config data =
    foldl (\<lambda>totalRevenue f.
        if field_type f = ''currency'' \<and> includes_str (toLowerCase (field_id f)) ''revenue''
        then js_add totalRevenue (toNumber (getValue data (field_id f) (defaultOr0 f)))
        else totalRevenue)
      (Fin 0) config"

text \<open>
  Reading \<open>projectType.categories.revenue\<close> throws a \<open>TypeError\<close> when the template has
  no categories; iterating a category that is not an array throws one as well.  The
  padel and gym formulas receive the revenue category but never look at it.
\<close>

definition annualRevenueOf :: "config \<Rightarrow> bag \<Rightarrow> error + jsnum" where
  "annualRevenueOf projectType data =
    (case categories projectType of
       None \<Rightarrow> Inl TypeError
     | Some cats \<Rightarrow>
         if cfg_id projectType = Some ''padel''
           then Inr (calculatePadelRevenue (c_revenue cats) data)
         else if cfg_id projectType = Some ''gym''
           then Inr (calculateGymRevenue (c_revenue cats) data)
         else (case c_revenue cats of
                 None \<Rightarrow> Inl TypeError
               | Some revenueConfig \<Rightarrow> Inr (calculateGenericRevenue revenueConfig data)))"

definition calculateRevenue :: "config \<Rightarrow> bag \<Rightarrow> error + revenueResult" where
  "calculateRevenue projectType data =
    (case annualRevenueOf projectType data of
       Inl e \<Rightarrow> Inl e
     | Inr annualRevenue \<Rightarrow>
         Inr \<lparr>annual = annualRevenue,
              monthly = js_div annualRevenue (Fin 12),
              daily = js_div annualRevenue (Fin 365)\<rparr>)"

subsection \<open>Costs\<close>

definition calculateOperatingCosts :: "field list \<Rightarrow> bag \<Rightarrow> jsnum" where
  "calculateOperatingCosts operatingConfig data =
    foldl (\<lambda>totalCosts f.
        if field_type f = ''currency''
        then js_add totalCosts (toNumber (getValue data (field_id f) (defaultOr0 f)))
        else totalCosts)
      (Fin 0) operatingConfig"

text \<open>
  The \<open>roles\<close> map of \<open>calculateStaffingCosts\<close>, in insertion order: role name, count and
  salary.  A new role starts as \<open>{count: 0, salary: 0}\<close>.
\<close>

type_synonym roles = "(string \<times> scalar \<times> scalar) list"

definition rolesEnsure :: "string \<Rightarrow> roles \<Rightarrow> roles" where
  "rolesEnsure baseName rs =
    (if map_of rs baseName = None then rs @ [(baseName, SNum (Fin 0), SNum (Fin 0))] else rs)"

definition setSalary :: "string \<Rightarrow> scalar \<Rightarrow> roles \<Rightarrow> roles" where
  "setSalary baseName v rs =
    map (\<lambda>(k, c, s). if k = baseName then (k, c, v) else (k, c, s)) rs"

definition setCount :: "string \<Rightarrow> scalar \<Rightarrow> roles \<Rightarrow> roles" where
  "setCount baseName v rs =
    map (\<lambda>(k, c, s). if k = baseName then (k, v, s) else (k, c, s)) rs"

text \<open>
  One iteration of the first loop, given the value \<open>v\<close> that both assigning branches
  read with \<open>getValue(data, field.id, field.defaultValue || 0)\<close>.
\<close>

definition assignRole :: "roles \<Rightarrow> field \<Rightarrow> scalar \<Rightarrow> roles" where
  "assignRole rs f v =
    (let baseName = stripSal (field_id f);
         rs1 = rolesEnsure baseName rs
     in if endsWith (field_id f) ''Sal'' \<or> includes_str (field_id f) ''Salary''
          then setSalary baseName v rs1
        else if field_type f = ''number''
          then setCount baseName v rs1
        else rs1)"

definition staffingField :: "bag \<Rightarrow> roles \<Rightarrow> field \<Rightarrow> roles" where
  "staffingField data rs f = assignRole rs f (getValue data (field_id f) (defaultOr0 f))"

text \<open>The second loop: \<open>totalCosts += role.count * role.salary\<close>.\<close>

definition rolesTotal :: "roles \<Rightarrow> jsnum" where
  "rolesTotal rs =
    foldl (\<lambda>totalCosts (roleName, c, s). js_add totalCosts (js_mul (toNumber c) (toNumber s)))
      (Fin 0) rs"

definition calculateStaffingCosts :: "field list \<Rightarrow> bag \<Rightarrow> jsnum" where
  "calculateStaffingCosts staffingConfig data =
    rolesTotal (foldl (staffingField data) [] staffingConfig)"

definition calculateCosts :: "config \<Rightarrow> bag \<Rightarrow> error + costsResult" where
  "calculateCosts projectType data =
    (case categories projectType of
       None \<Rightarrow> Inl TypeError
     | Some cats \<Rightarrow>
        (case c_operating cats of
           None \<Rightarrow> Inl TypeError
         | Some operatingConfig \<Rightarrow>
            (case c_staffing cats of
               None \<Rightarrow> Inl TypeError
             | Some staffingConfig \<Rightarrow>
                 (let operatingCosts = calculateOperatingCosts operatingConfig data;
                      staffingCosts = calculateStaffingCosts staffingConfig data;
                      totalAnnual = js_add operatingCosts staffingCosts
                  in Inr \<lparr>cost_annual = totalAnnual,
                          cost_monthly = js_div totalAnnual (Fin 12),
                          operating = operatingCosts,
                          staffing = staffingCosts\<rparr>))))"

subsection \<open>Investment\<close>

text \<open>\<open>data.courts\<close> as a condition: the key is present and its value is truthy.\<close>

definition truthyAt :: "bag \<Rightarrow> string \<Rightarrow> bool" where
  "truthyAt data key = (case data key of None \<Rightarrow> False | Some v \<Rightarrow> truthy_val v)"

definition investmentField :: "bag \<Rightarrow> jsnum \<Rightarrow> field \<Rightarrow> jsnum" where
  "investmentField data totalInvestment f =
    (if field_type f = ''currency'' then
       (let v = toNumber (getValue data (field_id f) (defaultOr0 f));
            v' = (if field_id f = ''courtCost'' \<and> truthyAt data ''courts''
                  then js_mul v (toNumber (getValue data ''courts'' (SNum (Fin 1))))
                  else v)
        in js_add totalInvestment v')
     else totalInvestment)"

definition calculateInvestment :: "config \<Rightarrow> bag \<Rightarrow> error + jsnum" where
  "calculateInvestment projectType data =
    (case categories projectType of
       None \<Rightarrow> Inl TypeError
     | Some cats \<Rightarrow>
        (case c_investment cats of
           None \<Rightarrow> Inl TypeError
         | Some fs \<Rightarrow> Inr (foldl (investmentField data) (Fin 0) fs)))"

subsection \<open>ROI\<close>

definition calculateROI :: "jsnum \<Rightarrow> jsnum \<Rightarrow> roiResult" where
  "calculateROI investment annualProfit =
    (if js_le investment (Fin 0) then
       \<lparr>paybackYears = PosInf, roiPercentage = Fin 0, breakEvenMonth = PosInf,
        roi_investment = None, roi_annualProfit = None\<rparr>
     else
       \<lparr>paybackYears =
          (if js_gt annualProfit (Fin 0) then js_ceil (js_div investment annualProfit)
           else PosInf),
        roiPercentage = js_mul (js_div annualProfit investment) (Fin 100),
        breakEvenMonth =
          (if js_gt annualProfit (Fin 0)
           then js_ceil (js_div investment (js_div annualProfit (Fin 12)))
           else PosInf),
        roi_investment = Some investment,
        roi_annualProfit = Some annualProfit\<rparr>)"


subsection \<open>Breakdowns\<close>

record slotBreakdown =
  hours :: scalar
  rate :: scalar
  utilization :: scalar
  totalHours :: jsnum
  utilizedHours :: jsnum
  slot_revenue :: jsnum

record tierBreakdown =
  members :: scalar
  fee :: scalar
  tier_revenue :: jsnum

datatype revenueBreakdown =
    PadelBreakdown slotBreakdown slotBreakdown
  | GymBreakdown tierBreakdown tierBreakdown tierBreakdown
  | NoBreakdown

definition slotOf :: "bag \<Rightarrow> string \<Rightarrow> string \<Rightarrow> string \<Rightarrow> slotBreakdown" where
  "slotOf data hoursKey rateKey utilKey =
    (let courts = toNumber (getValue data ''courts'' (SNum (Fin 1)));
         days = toNumber (getValue data ''days'' (SNum (Fin 7)));
         weeks = toNumber (getValue data ''weeks'' (SNum (Fin 52)));
         h = getValue data hoursKey (SNum (Fin 0));
         r = getValue data rateKey (SNum (Fin 0));
         u = getValue data utilKey (SNum (Fin 0))
     in \<lparr>hours = h, rate = r, utilization = u,
         totalHours = js_mul (js_mul (toNumber h) days) weeks,
         utilizedHours =
           js_mul (js_mul (js_mul (toNumber h) days) weeks) (js_div (toNumber u) (Fin 100)),
         slot_revenue =
           js_mul (js_mul (js_mul (js_mul (js_mul (toNumber h) (toNumber r)) days) weeks) courts)
             (js_div (toNumber u) (Fin 100))\<rparr>)"

definition tierOf :: "bag \<Rightarrow> string \<Rightarrow> string \<Rightarrow> jsnum option \<Rightarrow> tierBreakdown" where
  "tierOf data membersKey feeKey periods =
    (let m = getValue data membersKey (SNum (Fin 0));
         f = getValue data feeKey (SNum (Fin 0));
         base = js_mul (toNumber m) (toNumber f)
     in \<lparr>members = m, fee = f,
         tier_revenue = (case periods of None \<Rightarrow> base | Some n \<Rightarrow> js_mul base n)\<rparr>)"

definition calculateRevenueBreakdown :: "config \<Rightarrow> bag \<Rightarrow> revenueBreakdown" where
  "calculateRevenueBreakdown projectType data =
    (if cfg_id projectType = Some ''padel'' then
       PadelBreakdown (slotOf data ''peakHours'' ''peakRate'' ''peakUtil'')
                      (slotOf data ''offHours'' ''offRate'' ''offUtil'')
     else if cfg_id projectType = Some ''gym'' then
       GymBreakdown (tierOf data ''weekMembers'' ''weekFee'' (Some (Fin 52)))
                    (tierOf data ''monthMembers'' ''monthFee'' (Some (Fin 12)))
                    (tierOf data ''annualMembers'' ''annualFee'' None)
     else NoBreakdown)"

record operatingEntry =
  oe_name :: string
  oe_value :: scalar
  oe_group :: string

record costBreakdown =
  cb_operating :: "string \<rightharpoonup> operatingEntry"
  cb_groups :: "string \<rightharpoonup> jsnum"

text \<open>\<open>field.group || fallback\<close>\<close>

definition groupOr :: "field \<Rightarrow> string \<Rightarrow> string" where
  "groupOr f fallback =
    (case field_group f of None \<Rightarrow> fallback | Some g \<Rightarrow> if g = [] then fallback else g)"

text \<open>
  \<open>if (!groups[g]) groups[g] = 0; groups[g] += v\<close>: a running total that is zero or
  \<open>NaN\<close> is started again from zero.
\<close>

definition addToGroup :: "string \<Rightarrow> jsnum \<Rightarrow> (string \<rightharpoonup> jsnum) \<Rightarrow> (string \<rightharpoonup> jsnum)" where
  "addToGroup g v groups =
    (let cur = (case groups g of None \<Rightarrow> Fin 0 | Some c \<Rightarrow> if truthy_num c then c else Fin 0)
     in groups(g \<mapsto> js_add cur v))"

definition costBreakdownField :: "bag \<Rightarrow> costBreakdown \<Rightarrow> field \<Rightarrow> costBreakdown" where
  "costBreakdownField data b f =
    (let g = groupOr f ''Other'';
         v = getValue data (field_id f) (defaultOr0 f)
     in \<lparr>cb_operating =
           (cb_operating b)(field_id f \<mapsto> \<lparr>oe_name = field_name f, oe_value = v, oe_group = g\<rparr>),
         cb_groups = addToGroup g (toNumber v) (cb_groups b)\<rparr>)"

definition calculateCostBreakdown :: "config \<Rightarrow> bag \<Rightarrow> error + costBreakdown" where
  "calculateCostBreakdown projectType data =
    (case categories projectType of
       None \<Rightarrow> Inl TypeError
     | Some cats \<Rightarrow>
        (case c_operating cats of
           None \<Rightarrow> Inl TypeError
         | Some fs \<Rightarrow>
             Inr (foldl (costBreakdownField data)
                    \<lparr>cb_operating = Map.empty, cb_groups = Map.empty\<rparr> fs)))"

record roleEntry =
  re_name :: string
  re_count :: scalar
  re_salary :: scalar
  re_totalCost :: jsnum
  re_group :: string

record staffingBreakdown =
  sb_roles :: "string \<rightharpoonup> roleEntry"
  sb_groups :: "string \<rightharpoonup> jsnum"

text \<open>
  The \<open>roles\<close> map of \<open>calculateStaffingBreakdown\<close>; the total cost of an entry is filled
  in by the second loop.
\<close>

definition staffingBreakdownField ::
    "bag \<Rightarrow> (string \<times> roleEntry) list \<Rightarrow> field \<Rightarrow> (string \<times> roleEntry) list" where
  "staffingBreakdownField data rs f =
    (let baseName = stripSal (field_id f);
         g = groupOr f ''Staff'';
         rs1 = (if map_of rs baseName = None
                then rs @ [(baseName, \<lparr>re_name = [], re_count = SNum (Fin 0),
                              re_salary = SNum (Fin 0), re_totalCost = Fin 0, re_group = g\<rparr>)]
                else rs);
         v = getValue data (field_id f) (defaultOr0 f)
     in if endsWith (field_id f) ''Sal'' \<or> includes_str (field_id f) ''Salary'' then
          map (\<lambda>(k, r). if k = baseName
                 then (k, r\<lparr>re_salary := v, re_name := removeFirst '' Salary'' (field_name f)\<rparr>)
                 else (k, r)) rs1
        else if field_type f = ''number'' then
          map (\<lambda>(k, r). if k = baseName
                 then (k, r\<lparr>re_count := v,
                             re_name := (if re_name r = [] then field_name f else re_name r)\<rparr>)
                 else (k, r)) rs1
        else rs1)"

definition staffingBreakdownRole ::
    "staffingBreakdown \<Rightarrow> string \<times> roleEntry \<Rightarrow> staffingBreakdown" where
  "staffingBreakdownRole b kr =
    (case kr of (roleName, role) \<Rightarrow>
      (let totalCost = js_mul (toNumber (re_count role)) (toNumber (re_salary role))
       in \<lparr>sb_roles = (sb_roles b)(roleName \<mapsto> role\<lparr>re_totalCost := totalCost\<rparr>),
           sb_groups = addToGroup (re_group role) totalCost (sb_groups b)\<rparr>))"

definition calculateStaffingBreakdown :: "config \<Rightarrow> bag \<Rightarrow> error + staffingBreakdown" where
  "calculateStaffingBreakdown projectType data =
    (case categories projectType of
       None \<Rightarrow> Inl TypeError
     | Some cats \<Rightarrow>
        (case c_staffing cats of
           None \<Rightarrow> Inl TypeError
         | Some fs \<Rightarrow>
             Inr (foldl staffingBreakdownRole \<lparr>sb_roles = Map.empty, sb_groups = Map.empty\<rparr>
                    (foldl (staffingBreakdownField data) [] fs))))"

record breakdown =
  bd_revenue :: revenueBreakdown
  bd_costs :: costBreakdown
  bd_staffing :: staffingBreakdown

section \<open>The project-type registry (config.js)\<close>

subsection \<open>Built-in templates\<close>

definition num :: "rat \<Rightarrow> scalar" where
  "num r = SNum (Fin r)"

definition fld :: "string \<Rightarrow> string \<Rightarrow> string \<Rightarrow> scalar \<Rightarrow> string \<Rightarrow> field" where
  "fld i n t d g =
    \<lparr>field_id = i, field_name = n, field_type = t, defaultValue = Some d, field_group = Some g\<rparr>"

definition padel_template :: config where
  "padel_template =
    \<lparr>cfg_id = Some ''padel'', cfg_name = Some ''Padel Club'',
     businessType = Some ''booking'',
     categories = Some \<lparr>
       c_investment = Some
        [fld ''ground'' ''Ground Cost'' ''currency'' (num 50000) ''Infrastructure'',
         fld ''structure'' ''Structure Cost'' ''currency'' (num 120000) ''Infrastructure'',
         fld ''courts'' ''Number of Courts'' ''number'' (num 3) ''Equipment'',
         fld ''courtCost'' ''Per Court Cost'' ''currency'' (num 18000) ''Equipment'',
         fld ''amenities'' ''Amenities'' ''currency'' (num 20000) ''Infrastructure''],
       c_revenue = Some
        [fld ''peakHours'' ''Peak Hours/Day'' ''number'' (num 4) ''Peak Time'',
         fld ''peakRate'' ''Peak Rate'' ''currency'' (num 40) ''Peak Time'',
         fld ''peakUtil'' ''Peak Utilization'' ''percentage'' (num 70) ''Peak Time'',
         fld ''offHours'' ''Off Hours/Day'' ''number'' (num 2) ''Off-Peak Time'',
         fld ''offRate'' ''Off Rate'' ''currency'' (num 25) ''Off-Peak Time'',
         fld ''offUtil'' ''Off Utilization'' ''percentage'' (num 35) ''Off-Peak Time'',
         fld ''days'' ''Days/Week'' ''number'' (num 7) ''Schedule'',
         fld ''weeks'' ''Weeks/Year'' ''number'' (num 52) ''Schedule''],
       c_operating = Some
        [fld ''utilities'' ''Utilities/year'' ''currency'' (num 5000) ''Fixed Costs'',
         fld ''insurance'' ''Insurance/year'' ''currency'' (num 2500) ''Fixed Costs'',
         fld ''maintenance'' ''Maintenance/year'' ''currency'' (num 3000) ''Variable Costs'',
         fld ''marketing'' ''Marketing/year'' ''currency'' (num 4000) ''Variable Costs'',
         fld ''admin'' ''Admin/year'' ''currency'' (num 3500) ''Fixed Costs'',
         fld ''cleaning'' ''Cleaning/year'' ''currency'' (num 2000) ''Variable Costs'',
         fld ''misc'' ''Misc/year'' ''currency'' (num 1000) ''Variable Costs''],
       c_staffing = Some
        [fld ''ftMgr'' ''Full-time Manager'' ''number'' (num 1) ''Management'',
         fld ''ftMgrSal'' ''FT Mgr Salary'' ''currency'' (num 35000) ''Management'',
         fld ''ftRec'' ''Full-time Reception'' ''number'' (num 1) ''Front Office'',
         fld ''ftRecSal'' ''FT Rec Salary'' ''currency'' (num 21000) ''Front Office'',
         fld ''ftCoach'' ''Full-time Coach'' ''number'' (num 1) ''Coaching'',
         fld ''ftCoachSal'' ''FT Coach Salary'' ''currency'' (num 25000) ''Coaching'',
         fld ''ptCoach'' ''Part-time Coach'' ''number'' (num 1) ''Coaching'',
         fld ''ptCoachSal'' ''PT Coach Salary'' ''currency'' (num 12000) ''Coaching'',
         fld ''addStaff'' ''Additional Staff'' ''number'' (num 0) ''Other'',
         fld ''addStaffSal'' ''Add Staff Salary'' ''currency'' (num 0) ''Other'']\<rparr>\<rparr>"

definition gym_template :: config where
  "gym_template =
    \<lparr>cfg_id = Some ''gym'', cfg_name = Some ''Gym/Fitness Center'',
     businessType = Some ''member'',
     categories = Some \<lparr>
       c_investment = Some
        [fld ''equipment'' ''Equipment'' ''currency'' (num 35000) ''Equipment'',
         fld ''flooring'' ''Flooring'' ''currency'' (num 8000) ''Infrastructure'',
         fld ''amenities'' ''Amenities'' ''currency'' (num 6000) ''Infrastructure''],
       c_revenue = Some
        [fld ''weekMembers'' ''Weekly Members'' ''number'' (num 60) ''Memberships'',
         fld ''weekFee'' ''Weekly Fee'' ''currency'' (num 20) ''Memberships'',
         fld ''monthMembers'' ''Monthly Members'' ''number'' (num 30) ''Memberships'',
         fld ''monthFee'' ''Monthly Fee'' ''currency'' (num 50) ''Memberships'',
         fld ''annualMembers'' ''Annual Members'' ''number'' (num 12) ''Memberships'',
         fld ''annualFee'' ''Annual Fee'' ''currency'' (num 450) ''Memberships'',
         fld ''rampUp'' ''Apply Ramp-Up'' ''boolean'' (SBool False) ''Growth'',
         fld ''rampDuration'' ''Ramp Duration'' ''number'' (num 3) ''Growth'',
         fld ''rampEffect'' ''Ramp Effect'' ''percentage'' (num 40) ''Growth''],
       c_operating = Some
        [fld ''utilities'' ''Utilities/year'' ''currency'' (num 2500) ''Fixed Costs'',
         fld ''insurance'' ''Insurance/year'' ''currency'' (num 1700) ''Fixed Costs'',
         fld ''maintenance'' ''Maintenance/year'' ''currency'' (num 2000) ''Variable Costs'',
         fld ''marketing'' ''Marketing/year'' ''currency'' (num 2500) ''Variable Costs'',
         fld ''admin'' ''Admin/year'' ''currency'' (num 2100) ''Fixed Costs'',
         fld ''cleaning'' ''Cleaning/year'' ''currency'' (num 1200) ''Variable Costs'',
         fld ''misc'' ''Misc/year'' ''currency'' (num 800) ''Variable Costs''],
       c_staffing = Some
        [fld ''ftTrainer'' ''Full-time Trainer'' ''number'' (num 1) ''Training'',
         fld ''ftTrainerSal'' ''FT Trainer Salary'' ''currency'' (num 22000) ''Training'',
         fld ''ptTrainer'' ''Part-time Trainer'' ''number'' (num 1) ''Training'',
         fld ''ptTrainerSal'' ''PT Trainer Salary'' ''currency'' (num 9000) ''Training'',
         fld ''addStaff'' ''Additional Staff'' ''number'' (num 0) ''Other'',
         fld ''addStaffSal'' ''Add Staff Salary'' ''currency'' (num 0) ''Other'']\<rparr>\<rparr>"

definition conference_template :: config where
  "conference_template =
    \<lparr>cfg_id = Some ''conference'', cfg_name = Some ''Conference/Event'',
     businessType = Some ''event'',
     categories = Some \<lparr>
       c_investment = Some
        [fld ''venue'' ''Venue Setup'' ''currency'' (num 15000) ''Infrastructure'',
         fld ''equipment'' ''AV Equipment'' ''currency'' (num 8000) ''Equipment'',
         fld ''technology'' ''Technology Platform'' ''currency'' (num 5000) ''Technology''],
       c_revenue = Some
        [fld ''capacity'' ''Event Capacity'' ''number'' (num 200) ''Event Specs'',
         fld ''ticketPrice'' ''Average Ticket Price'' ''currency'' (num 150) ''Pricing'',
         fld ''occupancyRate'' ''Expected Occupancy'' ''percentage'' (num 80) ''Attendance'',
         fld ''eventsPerYear'' ''Events per Year'' ''number'' (num 12) ''Schedule'',
         fld ''sponsorship'' ''Sponsorship Revenue'' ''currency'' (num 10000) ''Additional Revenue''],
       c_operating = Some
        [fld ''venueRental'' ''Venue Rental/year'' ''currency'' (num 24000) ''Fixed Costs'',
         fld ''catering'' ''Catering/event'' ''currency'' (num 2000) ''Variable Costs'',
         fld ''marketing'' ''Marketing/year'' ''currency'' (num 8000) ''Variable Costs'',
         fld ''insurance'' ''Insurance/year'' ''currency'' (num 2000) ''Fixed Costs'',
         fld ''materials'' ''Materials/event'' ''currency'' (num 500) ''Variable Costs''],
       c_staffing = Some
        [fld ''eventManager'' ''Event Manager'' ''number'' (num 1) ''Management'',
         fld ''eventManagerSal'' ''Event Manager Salary'' ''currency'' (num 40000) ''Management'',
         fld ''speakers'' ''Speaker Fees/event'' ''currency'' (num 3000) ''Speakers'',
         fld ''support'' ''Support Staff/event'' ''number'' (num 3) ''Operations'',
         fld ''supportSal'' ''Support Staff Cost/event'' ''currency'' (num 800) ''Operations'']\<rparr>\<rparr>"

definition saas_template :: config where
  "saas_template =
    \<lparr>cfg_id = Some ''saas'', cfg_name = Some ''SaaS Platform'',
     businessType = Some ''member'',
     categories = Some \<lparr>
       c_investment = Some
        [fld ''development'' ''Initial Development'' ''currency'' (num 50000) ''Technology'',
         fld ''infrastructure'' ''Cloud Infrastructure'' ''currency'' (num 10000) ''Technology'',
         fld ''licenses'' ''Software Licenses'' ''currency'' (num 5000) ''Technology''],
       c_revenue = Some
        [fld ''basicUsers'' ''Basic Plan Users'' ''number'' (num 100) ''Subscriptions'',
         fld ''basicPrice'' ''Basic Plan Price'' ''currency'' (num 29) ''Subscriptions'',
         fld ''proUsers'' ''Pro Plan Users'' ''number'' (num 50) ''Subscriptions'',
         fld ''proPrice'' ''Pro Plan Price'' ''currency'' (num 79) ''Subscriptions'',
         fld ''churnRate'' ''Monthly Churn Rate'' ''percentage'' (num 5) ''Retention'',
         fld ''growthRate'' ''Monthly Growth Rate'' ''percentage'' (num 10) ''Growth''],
       c_operating = Some
        [fld ''hosting'' ''Hosting/month'' ''currency'' (num 2000) ''Technology'',
         fld ''support'' ''Customer Support/year'' ''currency'' (num 15000) ''Operations'',
         fld ''marketing'' ''Marketing/year'' ''currency'' (num 20000) ''Growth'',
         fld ''maintenance'' ''Maintenance/year'' ''currency'' (num 8000) ''Technology''],
       c_staffing = Some
        [fld ''developers'' ''Developers'' ''number'' (num 2) ''Development'',
         fld ''developerSal'' ''Developer Salary'' ''currency'' (num 60000) ''Development'',
         fld ''customer'' ''Customer Success'' ''number'' (num 1) ''Operations'',
         fld ''customerSal'' ''Customer Success Salary'' ''currency'' (num 45000) ''Operations'']\<rparr>\<rparr>"

definition ecommerce_template :: config where
  "ecommerce_template =
    \<lparr>cfg_id = Some ''ecommerce'', cfg_name = Some ''E-commerce Store'',
     businessType = Some ''product'',
     categories = Some \<lparr>
       c_investment = Some
        [fld ''website'' ''Website Development'' ''currency'' (num 15000) ''Technology'',
         fld ''inventory'' ''Initial Inventory'' ''currency'' (num 30000) ''Inventory'',
         fld ''warehouse'' ''Warehouse Setup'' ''currency'' (num 10000) ''Infrastructure''],
       c_revenue = Some
        [fld ''avgOrderValue'' ''Average Order Value'' ''currency'' (num 75) ''Sales'',
         fld ''ordersPerMonth'' ''Orders per Month'' ''number'' (num 500) ''Sales'',
         fld ''grossMargin'' ''Gross Margin'' ''percentage'' (num 40) ''Profitability'',
         fld ''returnRate'' ''Return Rate'' ''percentage'' (num 8) ''Operations''],
       c_operating = Some
        [fld ''hosting'' ''Website Hosting/year'' ''currency'' (num 2000) ''Technology'',
         fld ''shipping'' ''Shipping Costs/year'' ''currency'' (num 8000) ''Logistics'',
         fld ''payment'' ''Payment Processing/year'' ''currency'' (num 3000) ''Financial'',
         fld ''marketing'' ''Digital Marketing/year'' ''currency'' (num 15000) ''Marketing'',
         fld ''warehouse'' ''Warehouse Costs/year'' ''currency'' (num 12000) ''Logistics''],
       c_staffing = Some
        [fld ''manager'' ''Store Manager'' ''number'' (num 1) ''Management'',
         fld ''managerSal'' ''Manager Salary'' ''currency'' (num 35000) ''Management'',
         fld ''fulfillment'' ''Fulfillment Staff'' ''number'' (num 2) ''Operations'',
         fld ''fulfillmentSal'' ''Fulfillment Salary'' ''currency'' (num 25000) ''Operations'']\<rparr>\<rparr>"

definition consulting_template :: config where
  "consulting_template =
    \<lparr>cfg_id = Some ''consulting'', cfg_name = Some ''Consulting Services'',
     businessType = Some ''service'',
     categories = Some \<lparr>
       c_investment = Some
        [fld ''office'' ''Office Setup'' ''currency'' (num 8000) ''Infrastructure'',
         fld ''equipment'' ''Equipment & Software'' ''currency'' (num 5000) ''Technology'',
         fld ''certification'' ''Certifications'' ''currency'' (num 3000) ''Professional''],
       c_revenue = Some
        [fld ''hourlyRate'' ''Hourly Rate'' ''currency'' (num 120) ''Pricing'',
         fld ''billableHours'' ''Billable Hours/week'' ''number'' (num 30) ''Utilization'',
         fld ''utilizationRate'' ''Utilization Rate'' ''percentage'' (num 75) ''Utilization'',
         fld ''weeksPerYear'' ''Working Weeks/year'' ''number'' (num 48) ''Schedule''],
       c_operating = Some
        [fld ''office'' ''Office Rent/year'' ''currency'' (num 8000) ''Fixed Costs'',
         fld ''insurance'' ''Professional Insurance/year'' ''currency'' (num 2500) ''Fixed Costs'',
         fld ''marketing'' ''Marketing/year'' ''currency'' (num 5000) ''Business Development'',
         fld ''professional'' ''Professional Development/year'' ''currency'' (num 3000) ''Professional'',
         fld ''equipment'' ''Equipment Maintenance/year'' ''currency'' (num 1000) ''Operations''],
       c_staffing = Some
        [fld ''consultant'' ''Senior Consultants'' ''number'' (num 1) ''Consultants'',
         fld ''consultantSal'' ''Consultant Salary'' ''currency'' (num 70000) ''Consultants'',
         fld ''junior'' ''Junior Consultants'' ''number'' (num 1) ''Consultants'',
         fld ''juniorSal'' ''Junior Salary'' ''currency'' (num 40000) ''Consultants'']\<rparr>\<rparr>"

definition generic_template :: config where
  "generic_template =
    \<lparr>cfg_id = Some ''generic'', cfg_name = Some ''Generic Business'',
     businessType = Some ''hybrid'',
     categories = Some \<lparr>
       c_investment = Some
        [fld ''equipment'' ''Equipment'' ''currency'' (num 0) ''Assets'',
         fld ''infrastructure'' ''Infrastructure'' ''currency'' (num 0) ''Assets'',
         fld ''other'' ''Other Investments'' ''currency'' (num 0) ''Assets''],
       c_revenue = Some
        [fld ''primaryRevenue'' ''Primary Revenue'' ''currency'' (num 0) ''Income'',
         fld ''secondaryRevenue'' ''Secondary Revenue'' ''currency'' (num 0) ''Income''],
       c_operating = Some
        [fld ''utilities'' ''Utilities'' ''currency'' (num 0) ''Fixed Costs'',
         fld ''insurance'' ''Insurance'' ''currency'' (num 0) ''Fixed Costs'',
         fld ''maintenance'' ''Maintenance'' ''currency'' (num 0) ''Variable Costs'',
         fld ''marketing'' ''Marketing'' ''currency'' (num 0) ''Variable Costs'',
         fld ''other'' ''Other Costs'' ''currency'' (num 0) ''Variable Costs''],
       c_staffing = Some
        [fld ''management'' ''Management Staff'' ''number'' (num 0) ''Staff'',
         fld ''managementSal'' ''Management Salary'' ''currency'' (num 0) ''Staff'',
         fld ''operational'' ''Operational Staff'' ''number'' (num 0) ''Staff'',
         fld ''operationalSal'' ''Operational Salary'' ''currency'' (num 0) ''Staff'']\<rparr>\<rparr>"

definition DEFAULT_PROJECT_TYPES :: "string \<rightharpoonup> config" where
  "DEFAULT_PROJECT_TYPES =
    [''padel'' \<mapsto> padel_template,
     ''gym'' \<mapsto> gym_template,
     ''conference'' \<mapsto> conference_template,
     ''saas'' \<mapsto> saas_template,
     ''ecommerce'' \<mapsto> ecommerce_template,
     ''consulting'' \<mapsto> consulting_template,
     ''generic'' \<mapsto> generic_template]"


subsection \<open>ProjectTypeManager\<close>

text \<open>
  The manager's state: the user-defined templates, what \<open>saveCustomTypes\<close> last wrote
  under the storage key \<open>customProjectTypes\<close>, and the warnings sent to the console.
  A map lookup stands for the lookup of an own property of the JavaScript object; ids
  that name a property inherited from \<open>Object.prototype\<close> are not modelled.
\<close>

datatype warning = SkippingInvalid string error

record manager =
  customTypes :: "string \<rightharpoonup> config"
  storage :: "(string \<rightharpoonup> config) option"
  console :: "warning list"

text \<open>The constructor: \<open>loadCustomTypes\<close> reads the stored templates, or starts empty.\<close>

definition newManager :: "(string \<rightharpoonup> config) option \<Rightarrow> manager" where
  "newManager saved =
    \<lparr>customTypes = (case saved of None \<Rightarrow> Map.empty | Some m \<Rightarrow> m),
     storage = saved, console = []\<rparr>"

definition saveCustomTypes :: "manager \<Rightarrow> manager" where
  "saveCustomTypes m = m\<lparr>storage := Some (customTypes m)\<rparr>"

text \<open>\<open>{ ...DEFAULT_PROJECT_TYPES, ...this.customTypes }\<close>: the later spread wins.\<close>

definition getAllProjectTypes :: "manager \<Rightarrow> (string \<rightharpoonup> config)" where
  "getAllProjectTypes m = DEFAULT_PROJECT_TYPES ++ customTypes m"

definition getProjectType :: "manager \<Rightarrow> string \<Rightarrow> config option" where
  "getProjectType m i = getAllProjectTypes m i"

definition validateProjectTypeConfig :: "config \<Rightarrow> error + unit" where
  "validateProjectTypeConfig cfg =
    (if cfg_id cfg = None \<or> cfg_id cfg = Some [] then Inl InvalidId
     else if cfg_name cfg = None \<or> cfg_name cfg = Some [] then Inl InvalidName
     else
       (case categories cfg of
          None \<Rightarrow> Inl MissingCategories
        | Some cats \<Rightarrow>
            if c_investment cats = None then Inl (CategoryNotArray ''investment'')
            else if c_revenue cats = None then Inl (CategoryNotArray ''revenue'')
            else if c_operating cats = None then Inl (CategoryNotArray ''operating'')
            else if c_staffing cats = None then Inl (CategoryNotArray ''staffing'')
            else Inr ()))"

text \<open>
  Every operation returns its outcome together with the state it leaves behind, so that
  a state change made before a \<open>throw\<close> would be visible.
\<close>

definition setProjectType :: "manager \<Rightarrow> string \<Rightarrow> config \<Rightarrow> (error + unit) \<times> manager" where
  "setProjectType m i cfg =
    (if DEFAULT_PROJECT_TYPES i \<noteq> None then (Inl (CannotOverrideDefault i), m)
     else
       (case validateProjectTypeConfig cfg of
          Inl e \<Rightarrow> (Inl e, m)
        | Inr _ \<Rightarrow> (Inr (), saveCustomTypes (m\<lparr>customTypes := (customTypes m)(i \<mapsto> cfg)\<rparr>))))"

definition deleteProjectType :: "manager \<Rightarrow> string \<Rightarrow> (error + unit) \<times> manager" where
  "deleteProjectType m i =
    (if DEFAULT_PROJECT_TYPES i \<noteq> None then (Inl (CannotDeleteDefault i), m)
     else (Inr (), saveCustomTypes (m\<lparr>customTypes := (customTypes m)(i := None)\<rparr>)))"

text \<open>
  \<open>JSON.parse(JSON.stringify(template))\<close>: a default that is not a finite number comes
  back as \<open>null\<close>.
\<close>

definition cloneField :: "field \<Rightarrow> field" where
  "cloneField f =
    f\<lparr>defaultValue :=
        (case defaultValue f of
           Some (SNum (Fin r)) \<Rightarrow> Some (SNum (Fin r))
         | Some (SBool b) \<Rightarrow> Some (SBool b)
         | _ \<Rightarrow> None)\<rparr>"

definition cloneCategories :: "categories \<Rightarrow> categories" where
  "cloneCategories cats =
    \<lparr>c_investment = map_option (map cloneField) (c_investment cats),
     c_revenue = map_option (map cloneField) (c_revenue cats),
     c_operating = map_option (map cloneField) (c_operating cats),
     c_staffing = map_option (map cloneField) (c_staffing cats)\<rparr>"

definition jsonClone :: "config \<Rightarrow> config" where
  "jsonClone cfg = cfg\<lparr>categories := map_option cloneCategories (categories cfg)\<rparr>"

definition createFromTemplate ::
    "manager \<Rightarrow> string \<Rightarrow> string \<Rightarrow> string \<Rightarrow> (error + config) \<times> manager" where
  "createFromTemplate m templateId newId newName =
    (case getProjectType m templateId of
       None \<Rightarrow> (Inl (TemplateNotFound templateId), m)
     | Some template \<Rightarrow>
        (let newConfig = (jsonClone template)\<lparr>cfg_id := Some newId, cfg_name := Some newName\<rparr>
         in case setProjectType m newId newConfig of
              (Inl e, m') \<Rightarrow> (Inl e, m')
            | (Inr _, m') \<Rightarrow> (Inr newConfig, m')))"

text \<open>
  The argument of \<open>importConfiguration\<close>: \<open>custom\<close> is \<open>None\<close> when \<open>configData.custom\<close> is
  missing or not an object, and otherwise lists \<open>Object.entries(configData.custom)\<close>, the
  keys of an object being distinct.
\<close>

record configData =
  custom :: "(string \<times> config) list option"

text \<open>
  The validation loop: an entry that fails is reported on the console, and the loop goes
  on to the next entry.
\<close>

definition importWarnings :: "(string \<times> config) list \<Rightarrow> warning list" where
  "importWarnings entries =
    concat (map (\<lambda>(i, cfg). case validateProjectTypeConfig cfg of
                               Inl e \<Rightarrow> [SkippingInvalid i e]
                             | Inr _ \<Rightarrow> []) entries)"

definition importConfiguration :: "manager \<Rightarrow> configData \<Rightarrow> manager" where
  "importConfiguration m d =
    (case custom d of
       None \<Rightarrow> m
     | Some entries \<Rightarrow>
         saveCustomTypes
           (m\<lparr>console := console m @ importWarnings entries,
              customTypes := map_of entries\<rparr>))"

text \<open>No user-defined template is stored under the id of a built-in one.\<close>

definition noShadow :: "manager \<Rightarrow> bool" where
  "noShadow m = (dom (customTypes m) \<inter> dom DEFAULT_PROJECT_TYPES = {})"

section \<open>P and L of a project type\<close>

record result =
  typeId :: string
  typeName :: "string option"
  revenue :: revenueResult
  costs :: costsResult
  investment :: jsnum
  breakdown :: breakdown
  profit :: jsnum
  monthlyProfit :: jsnum
  roi :: roiResult

text \<open>
  \<open>calculateProjectPL(typeId, data)\<close> resolves the template through the global manager
  and throws for an unknown id.  The parts are computed in the order of the object
  literal; the first one that throws ends the call.
\<close>

definition calculateProjectPL :: "manager \<Rightarrow> string \<Rightarrow> bag \<Rightarrow> error + result" where
  "calculateProjectPL mgr tid data =
    (case getProjectType mgr tid of
       None \<Rightarrow> Inl (UnknownProjectType tid)
     | Some projectType \<Rightarrow>
      (case calculateRevenue projectType data of Inl e \<Rightarrow> Inl e | Inr revenue' \<Rightarrow>
      (case calculateCosts projectType data of Inl e \<Rightarrow> Inl e | Inr costs' \<Rightarrow>
      (case calculateInvestment projectType data of Inl e \<Rightarrow> Inl e | Inr investment' \<Rightarrow>
      (case calculateCostBreakdown projectType data of Inl e \<Rightarrow> Inl e | Inr cb \<Rightarrow>
      (case calculateStaffingBreakdown projectType data of Inl e \<Rightarrow> Inl e | Inr sb \<Rightarrow>
        (let profit' = js_sub (annual revenue') (cost_annual costs')
         in Inr \<lparr>typeId = tid,
                 typeName = cfg_name projectType,
                 revenue = revenue',
                 costs = costs',
                 investment = investment',
                 breakdown =
                   \<lparr>bd_revenue = calculateRevenueBreakdown projectType data,
                    bd_costs = cb, bd_staffing = sb\<rparr>,
                 profit = profit',
                 monthlyProfit = js_div profit' (Fin 12),
                 roi = calculateROI investment' profit'\<rparr>)))))))"

subsection \<open>The engine's cache\<close>

record engine =
  projectTypes :: "string \<rightharpoonup> bag"
  calculations :: "string \<rightharpoonup> result"

definition newEngine :: engine where
  "newEngine = \<lparr>projectTypes = Map.empty, calculations = Map.empty\<rparr>"

text \<open>The form data is stored before the calculation, which may throw.\<close>

definition registerProjectType ::
    "manager \<Rightarrow> engine \<Rightarrow> string \<Rightarrow> bag \<Rightarrow> (error + result) \<times> engine" where
  "registerProjectType mgr eng tid data =
    (let eng1 = eng\<lparr>projectTypes := (projectTypes eng)(tid \<mapsto> data)\<rparr>
     in case calculateProjectPL mgr tid data of
          Inl e \<Rightarrow> (Inl e, eng1)
        | Inr r \<Rightarrow> (Inr r, eng1\<lparr>calculations := (calculations eng1)(tid \<mapsto> r)\<rparr>))"

text \<open>\<open>this.calculations.get(typeId) || null\<close>; a stored result is an object, hence truthy.\<close>

definition getCalculation :: "engine \<Rightarrow> string \<Rightarrow> result option" where
  "getCalculation eng tid = calculations eng tid"

subsection \<open>Combined P and L\<close>

text \<open>
  The optional multipliers of \<open>calculateCombinedPL\<close>; \<open>None\<close> is a property that is not
  given.
\<close>

record adjustments =
  adj_revenue :: "jsnum option"
  adj_costs :: "jsnum option"

text \<open>\<open>adjustments.revenue || 1\<close>\<close>

definition orOne :: "jsnum option \<Rightarrow> jsnum" where
  "orOne a = (case a of None \<Rightarrow> Fin 1 | Some n \<Rightarrow> if truthy_num n then n else Fin 1)"

record project =
  p_typeId :: string
  p_typeName :: "string option"
  p_revenue :: jsnum
  p_costs :: jsnum
  p_profit :: jsnum
  p_investment :: jsnum

record totals =
  t_revenue :: jsnum
  t_costs :: jsnum
  t_profit :: jsnum
  t_investment :: jsnum
  t_roi :: jsnum
  t_paybackYears :: jsnum

record combined =
  projects :: "project list"
  totals :: totals

text \<open>
  The loop state: the projects pushed so far and the three running totals.
\<close>

definition combineStep ::
    "engine \<Rightarrow> adjustments \<Rightarrow> project list \<times> jsnum \<times> jsnum \<times> jsnum \<Rightarrow> string
      \<Rightarrow> project list \<times> jsnum \<times> jsnum \<times> jsnum" where
  "combineStep eng adj acc tid =
    (case acc of (ps, totalRevenue, totalCosts, totalInvestment) \<Rightarrow>
      (case getCalculation eng tid of
         None \<Rightarrow> acc
       | Some calculation \<Rightarrow>
          (let revAdjust = orOne (adj_revenue adj);
               costAdjust = orOne (adj_costs adj);
               adjustedRevenue = js_mul (annual (revenue calculation)) revAdjust;
               adjustedCosts = js_mul (cost_annual (costs calculation)) costAdjust
           in (ps @ [\<lparr>p_typeId = tid,
                       p_typeName = typeName calculation,
                       p_revenue = adjustedRevenue,
                       p_costs = adjustedCosts,
                       p_profit = js_sub adjustedRevenue adjustedCosts,
                       p_investment = investment calculation\<rparr>],
               js_add totalRevenue adjustedRevenue,
               js_add totalCosts adjustedCosts,
               js_add totalInvestment (investment calculation)))))"

definition calculateCombinedPL :: "engine \<Rightarrow> string list \<Rightarrow> adjustments \<Rightarrow> combined" where
  "calculateCombinedPL eng projectTypeIds adj =
    (case foldl (combineStep eng adj) ([], Fin 0, Fin 0, Fin 0) projectTypeIds of
       (ps, totalRevenue, totalCosts, totalInvestment) \<Rightarrow>
         \<lparr>projects = ps,
          totals =
            \<lparr>t_revenue = totalRevenue,
             t_costs = totalCosts,
             t_profit = js_sub totalRevenue totalCosts,
             t_investment = totalInvestment,
             t_roi =
               (if js_gt totalInvestment (Fin 0)
                then js_mul (js_div (js_sub totalRevenue totalCosts) totalInvestment) (Fin 100)
                else Fin 0),
             t_paybackYears =
               (if js_gt (js_sub totalRevenue totalCosts) (Fin 0)
                then js_ceil (js_div totalInvestment (js_sub totalRevenue totalCosts))
                else PosInf)\<rparr>\<rparr>)"

section \<open>The CapEx benefit formula\<close>

text \<open>
  \<open>calculateCapExRevenue\<close> of the latest copy of the engine, which dispatches to it for
  the template id \<open>capexInvestment\<close>.  That copy shares \<open>getValue\<close> with the one above.
\<close>

definition calculateCapExRevenue :: "field list option \<Rightarrow> bag \<Rightarrow> jsnum" where
  "calculateCapExRevenue config data =
    (let costSavings = toNumber (getValue data ''costSavings'' (SNum (Fin 0)));
         revenueIncrease = toNumber (getValue data ''revenueIncrease'' (SNum (Fin 0)));
         implementationTime = toNumber (getValue data ''implementationTime'' (SNum (Fin 6)));
         rampUpPeriod = toNumber (getValue data ''rampUpPeriod'' (SNum (Fin 3)));
         totalImplementationTime = js_add implementationTime rampUpPeriod
     in if js_ge totalImplementationTime (Fin 12) then Fin 0
        else
          (let monthsWithBenefits = js_sub (Fin 12) totalImplementationTime;
               rampUpFactor = (if js_gt rampUpPeriod (Fin 0) then Fin (1 / 2) else Fin 1)
           in js_mul (js_mul (js_add costSavings revenueIncrease)
                             (js_div monthsWithBenefits (Fin 12)))
                     rampUpFactor))"


section \<open>Reference notions from the specification\<close>












section \<open>Example inputs\<close>

text \<open>
  A small user-defined template, an import entry that fails validation (it has neither an
  id nor categories), and a well-formed entry that carries the id of a built-in template.
\<close>

definition shop_template :: config where
  "shop_template =
    \<lparr>cfg_id = Some ''shop'', cfg_name = Some ''Corner Shop'',
     businessType = Some ''product'',
     categories = Some \<lparr>
       c_investment = Some [fld ''fitout'' ''Fit-out'' ''currency'' (num 5000) ''Assets''],
       c_revenue = Some
        [fld ''productRevenue'' ''Product Revenue'' ''currency'' (num 1000) ''Income''],
       c_operating = Some [fld ''rent'' ''Rent/year'' ''currency'' (num 300) ''Fixed Costs''],
       c_staffing = Some
        [fld ''clerk'' ''Clerks'' ''number'' (num 2) ''Staff'',
         fld ''clerkSal'' ''Clerk Salary'' ''currency'' (num 100) ''Staff'']\<rparr>\<rparr>"

definition broken_template :: config where
  "broken_template =
    \<lparr>cfg_id = None, cfg_name = Some ''No id, no categories'',
     businessType = None, categories = None\<rparr>"

definition shadow_gym :: config where
  "shadow_gym =
    \<lparr>cfg_id = Some ''gym'', cfg_name = Some ''Shadow Gym'',
     businessType = None,
     categories = Some \<lparr>c_investment = Some [], c_revenue = Some [],
                        c_operating = Some [], c_staffing = Some []\<rparr>\<rparr>"


section \<open>Basic facts\<close>

lemma getValue_missing: "data key = None \<Longrightarrow> getValue data key d = d"
  by (simp add: getValue_def)


lemma js_gt_not_le: "js_gt a b \<Longrightarrow> \<not> js_le a b"
  by (cases a; cases b) (auto simp: js_gt_def)

lemma gym_builtin: "DEFAULT_PROJECT_TYPES ''gym'' = Some gym_template"
  by (simp add: DEFAULT_PROJECT_TYPES_def)

lemma parse_Infinity: "parseFloat ''Infinity'' = PosInf"
  by code_simp

lemma parse_zero: "parseFloat ''0'' = Fin 0"
  by code_simp

lemma parse_abc: "parseFloat ''abc'' = NaN"
  by code_simp

lemma parse_12_5: "parseFloat ''12.5'' = Fin (25 / 2)"
  by code_simp

lemma getValue_boolean: "data key = Some (VBool b) \<Longrightarrow> getValue data key d = d"
proof -
  have "parseFloat ''true'' = NaN" "parseFloat ''false'' = NaN" by code_simp+
  then show "data key = Some (VBool b) \<Longrightarrow> getValue data key d = d"
    by (simp add: getValue_def truthy_num_def)
qed

lemma roi_of_result:
  "calculateProjectPL mgr tid data = Inr r \<Longrightarrow> roi r = calculateROI (investment r) (profit r)"
  by (auto simp: calculateProjectPL_def Let_def split: option.splits sum.splits)

section \<open>Profit identity\<close>

text \<open>
  C1.  Whatever the registry state, the type id and the value bag, a result that
  \<open>calculateProjectPL\<close> returns has \<open>profit = revenue.annual - costs.annual\<close> and
  \<open>monthlyProfit = profit / 12\<close>.  The equalities are between the stored values: the
  field holds what the subtraction and the division produce (which may be \<open>NaN\<close> or
  infinite).
\<close>

theorem profit_identity:
  assumes "calculateProjectPL mgr tid data = Inr r"
  shows "profit r = js_sub (annual (revenue r)) (cost_annual (costs r))
       \<and> monthlyProfit r = js_div (profit r) (Fin 12)"
  using assms
  by (auto simp: calculateProjectPL_def Let_def split: option.splits sum.splits)

theorem profit_identity_witness:
  "\<exists>r. calculateProjectPL (newManager None) ''gym'' Map.empty = Inr r
     \<and> profit r = js_sub (annual (revenue r)) (cost_annual (costs r))
     \<and> monthlyProfit r = js_div (profit r) (Fin 12)"
proof -
  have "\<not> isl (calculateProjectPL (newManager None) ''gym'' Map.empty)"
    by code_simp
  then obtain r where r: "calculateProjectPL (newManager None) ''gym'' Map.empty = Inr r"
    by (cases "calculateProjectPL (newManager None) ''gym'' Map.empty") auto
  from profit_identity [OF r] r show ?thesis by blast
qed

section \<open>ROI\<close>

text \<open>
  C2.  When the investment is at most 0, \<open>calculateROI\<close> returns an ROI percentage of 0
  and \<open>Infinity\<close> for both the payback years and the break-even month, whatever the
  profit.  When the investment is positive, the percentage is \<open>profit / investment * 100\<close>,
  and the payback years and the break-even month are \<open>ceil(investment / profit)\<close> and
  \<open>ceil(investment / (profit / 12))\<close> for a positive profit and \<open>Infinity\<close> otherwise.
  By \<open>roi_of_result\<close> the \<open>roi\<close> of every result is \<open>calculateROI\<close> of its investment and
  profit.
\<close>

theorem roi_sentinel_law:
  "(js_le i (Fin 0) \<longrightarrow>
      roiPercentage (calculateROI i p) = Fin 0
      \<and> paybackYears (calculateROI i p) = PosInf
      \<and> breakEvenMonth (calculateROI i p) = PosInf)
   \<and> (js_gt i (Fin 0) \<longrightarrow>
      roiPercentage (calculateROI i p) = js_mul (js_div p i) (Fin 100)
      \<and> paybackYears (calculateROI i p) =
          (if js_gt p (Fin 0) then js_ceil (js_div i p) else PosInf)
      \<and> breakEvenMonth (calculateROI i p) =
          (if js_gt p (Fin 0) then js_ceil (js_div i (js_div p (Fin 12))) else PosInf))"
  by (auto simp: calculateROI_def dest: js_gt_not_le)

theorem roi_sentinel_law_witness:
  "js_le (Fin (- 5)) (Fin 0)
   \<and> roiPercentage (calculateROI (Fin (- 5)) (Fin 100)) = Fin 0
   \<and> paybackYears (calculateROI (Fin (- 5)) (Fin 100)) = PosInf
   \<and> breakEvenMonth (calculateROI (Fin (- 5)) (Fin 100)) = PosInf
   \<and> js_gt (Fin 1000) (Fin 0)
   \<and> roiPercentage (calculateROI (Fin 1000) (Fin 300)) = Fin 30
   \<and> paybackYears (calculateROI (Fin 1000) (Fin 300)) = Fin 4
   \<and> breakEvenMonth (calculateROI (Fin 1000) (Fin 300)) = Fin 40"
proof -
  have a: "js_le (Fin (- 5)) (Fin 0)" by simp
  have b: "js_gt (Fin 1000) (Fin 0)" by (simp add: js_gt_def)
  have c: "js_mul (js_div (Fin 300) (Fin 1000)) (Fin 100) = Fin 30" by simp
  have d: "js_gt (Fin 300) (Fin 0)" by (simp add: js_gt_def)
  have e: "js_ceil (js_div (Fin 1000) (Fin 300)) = Fin 4" by code_simp
  have f: "js_ceil (js_div (Fin 1000) (js_div (Fin 300) (Fin 12))) = Fin 40" by code_simp
  from roi_sentinel_law [of "Fin (- 5)" "Fin 100"] roi_sentinel_law [of "Fin 1000" "Fin 300"]
    a b c d e f
  show ?thesis by simp
qed

section \<open>The empty value bag\<close>















section \<open>Import and reserved ids\<close>

text \<open>
  The guarded operations keep user-defined templates off the built-in ids, and in such a
  state every built-in id resolves to its built-in template.
\<close>

lemma noShadow_builtin:
  "noShadow m \<Longrightarrow> i \<in> dom DEFAULT_PROJECT_TYPES \<Longrightarrow>
     getAllProjectTypes m i = DEFAULT_PROJECT_TYPES i"
  by (auto simp: noShadow_def getAllProjectTypes_def map_add_def split: option.splits)

lemma noShadow_new: "noShadow (newManager None)"
  by (simp add: noShadow_def newManager_def)

lemma setProjectType_noShadow: "noShadow m \<Longrightarrow> noShadow (snd (setProjectType m i cfg))"
  by (auto simp: noShadow_def setProjectType_def saveCustomTypes_def split: sum.splits)

lemma deleteProjectType_noShadow: "noShadow m \<Longrightarrow> noShadow (snd (deleteProjectType m i))"
  by (auto simp: noShadow_def deleteProjectType_def saveCustomTypes_def)

lemma createFromTemplate_noShadow:
  "noShadow m \<Longrightarrow> noShadow (snd (createFromTemplate m t i n))"
proof -
  assume a: "noShadow m"
  show ?thesis
  proof (cases "getProjectType m t")
    case None
    with a show ?thesis by (simp add: createFromTemplate_def)
  next
    case (Some template)
    let ?c = "(jsonClone template)\<lparr>cfg_id := Some i, cfg_name := Some n\<rparr>"
    have "snd (createFromTemplate m t i n) = snd (setProjectType m i ?c)"
      using Some
      by (cases "setProjectType m i ?c")
         (auto simp: createFromTemplate_def Let_def split: sum.splits)
    with a show ?thesis by (simp add: setProjectType_noShadow)
  qed
qed

text \<open>
  \<open>importConfiguration\<close> has no failing path.  It stores every entry it is given, and it
  reports every entry that fails validation.
\<close>

lemma import_stores_every_entry:
  "customTypes (importConfiguration m \<lparr>custom = Some es\<rparr>) = map_of es"
  by (simp add: importConfiguration_def saveCustomTypes_def)

lemma import_logs_invalid:
  "(i, cfg) \<in> set es \<Longrightarrow> validateProjectTypeConfig cfg = Inl e \<Longrightarrow>
     SkippingInvalid i e \<in> set (console (importConfiguration m \<lparr>custom = Some es\<rparr>))"
  by (force simp: importConfiguration_def saveCustomTypes_def importWarnings_def)

text \<open>
  C4, at a failing input.  A fresh manager imports two entries: one fails validation (it
  has no id), the other is valid.  The failure is reported on the console and the import
  goes on, but the assignment \<open>this.customTypes = configData.custom\<close> after the loop
  stores the invalid entry with the valid one; a later calculation for it throws a
  \<open>TypeError\<close>.
\<close>

theorem import_keeps_invalid_entry:
  "validateProjectTypeConfig broken_template = Inl InvalidId
   \<and> validateProjectTypeConfig shop_template = Inr ()
   \<and> console (importConfiguration (newManager None)
         \<lparr>custom = Some [(''broken'', broken_template), (''shop'', shop_template)]\<rparr>)
       = [SkippingInvalid ''broken'' InvalidId]
   \<and> customTypes (importConfiguration (newManager None)
         \<lparr>custom = Some [(''broken'', broken_template), (''shop'', shop_template)]\<rparr>) ''broken''
       = Some broken_template
   \<and> customTypes (importConfiguration (newManager None)
         \<lparr>custom = Some [(''broken'', broken_template), (''shop'', shop_template)]\<rparr>) ''shop''
       = Some shop_template
   \<and> calculateProjectPL (importConfiguration (newManager None)
         \<lparr>custom = Some [(''broken'', broken_template), (''shop'', shop_template)]\<rparr>)
         ''broken'' Map.empty = Inl TypeError"
proof -
  have v1: "validateProjectTypeConfig broken_template = Inl InvalidId"
    by (simp add: validateProjectTypeConfig_def broken_template_def)
  have v2: "validateProjectTypeConfig shop_template = Inr ()"
    by (simp add: validateProjectTypeConfig_def shop_template_def)
  have nb: "DEFAULT_PROJECT_TYPES ''broken'' = None"
    by (simp add: DEFAULT_PROJECT_TYPES_def)
  have t: "calculateRevenue broken_template Map.empty = Inl TypeError"
    by (simp add: calculateRevenue_def annualRevenueOf_def broken_template_def)
  show ?thesis
    by (simp add: v1 v2 importConfiguration_def importWarnings_def saveCustomTypes_def
        newManager_def calculateProjectPL_def getProjectType_def getAllProjectTypes_def
        map_add_def nb t)
qed

text \<open>
  C5, at a failing input.  \<open>setProjectType\<close> refuses the id \<open>gym\<close>, but
  \<open>importConfiguration\<close> does not look at the ids it stores: after importing one valid
  entry under the key \<open>gym\<close>, \<open>getAllProjectTypes\<close> maps \<open>gym\<close> to the imported template
  and no longer to the built-in one.
\<close>

theorem import_shadows_builtin:
  "DEFAULT_PROJECT_TYPES ''gym'' = Some gym_template
   \<and> getAllProjectTypes (newManager None) ''gym'' = Some gym_template
   \<and> validateProjectTypeConfig shadow_gym = Inr ()
   \<and> getAllProjectTypes
        (importConfiguration (newManager None) \<lparr>custom = Some [(''gym'', shadow_gym)]\<rparr>) ''gym''
       = Some shadow_gym
   \<and> shadow_gym \<noteq> gym_template
   \<and> fst (setProjectType (newManager None) ''gym'' shadow_gym)
       = Inl (CannotOverrideDefault ''gym'')"
proof -
  have "cfg_name shadow_gym \<noteq> cfg_name gym_template"
    by (simp add: shadow_gym_def gym_template_def)
  then have ne: "shadow_gym \<noteq> gym_template" by auto
  have v: "validateProjectTypeConfig shadow_gym = Inr ()"
    by (simp add: validateProjectTypeConfig_def shadow_gym_def)
  show ?thesis
    by (simp add: gym_builtin ne v getAllProjectTypes_def importConfiguration_def
        saveCustomTypes_def newManager_def setProjectType_def)
qed

text \<open>
  C6.  For every manager state and every schema argument, \<open>setProjectType\<close> with the id
  of a built-in template fails with the error "Cannot override default project type" and
  leaves the whole state as it was: the user-defined templates, the stored copy and the
  console.  The check of the id comes first, before validation and before any
  assignment.
\<close>

theorem setProjectType_reserved_id:
  "i \<in> dom DEFAULT_PROJECT_TYPES \<Longrightarrow>
     setProjectType m i cfg = (Inl (CannotOverrideDefault i), m)"
  by (auto simp: setProjectType_def)

theorem setProjectType_reserved_id_witness:
  "''gym'' \<in> dom DEFAULT_PROJECT_TYPES
   \<and> setProjectType (newManager None) ''gym'' generic_template
       = (Inl (CannotOverrideDefault ''gym''), newManager None)
   \<and> getProjectType (snd (setProjectType (newManager None) ''gym'' generic_template)) ''gym''
       = Some gym_template"
proof -
  have a: "''gym'' \<in> dom DEFAULT_PROJECT_TYPES" using gym_builtin by blast
  have b: "getProjectType (newManager None) ''gym'' = Some gym_template"
    by (simp add: getProjectType_def getAllProjectTypes_def newManager_def gym_builtin)
  from setProjectType_reserved_id [OF a, of "newManager None" generic_template] a b
  show ?thesis by simp
qed

section \<open>Revenue formulas\<close>

text \<open>
  C7.  Let the four inputs be what \<open>getValue\<close> reads (with the fallbacks 0, 0, 6 and 3 of
  the code).  When \<open>implementationTime + rampUpPeriod >= 12\<close> the first-year benefit is 0.
  Otherwise it is \<open>(costSavings + revenueIncrease) * ((12 - sum) / 12) * rampFactor\<close>,
  where the ramp factor is one half for a positive ramp-up period and 1 otherwise; at a
  sum of 11 this is \<open>(costSavings + revenueIncrease) * (1 / 12) * rampFactor\<close>.
\<close>

theorem capex_phase_boundary:
  fixes data :: bag
  defines "costSavings \<equiv> toNumber (getValue data ''costSavings'' (SNum (Fin 0)))"
    and "revenueIncrease \<equiv> toNumber (getValue data ''revenueIncrease'' (SNum (Fin 0)))"
    and "implementationTime \<equiv> toNumber (getValue data ''implementationTime'' (SNum (Fin 6)))"
    and "rampUpPeriod \<equiv> toNumber (getValue data ''rampUpPeriod'' (SNum (Fin 3)))"
  defines "rampFactor \<equiv> (if js_gt rampUpPeriod (Fin 0) then Fin (1 / 2) else Fin 1)"
  shows "(js_ge (js_add implementationTime rampUpPeriod) (Fin 12) \<longrightarrow>
            calculateCapExRevenue config data = Fin 0)
       \<and> (\<not> js_ge (js_add implementationTime rampUpPeriod) (Fin 12) \<longrightarrow>
            calculateCapExRevenue config data =
              js_mul (js_mul (js_add costSavings revenueIncrease)
                  (js_div (js_sub (Fin 12) (js_add implementationTime rampUpPeriod)) (Fin 12)))
                rampFactor)
       \<and> (js_add implementationTime rampUpPeriod = Fin 11 \<longrightarrow>
            calculateCapExRevenue config data =
              js_mul (js_mul (js_add costSavings revenueIncrease) (Fin (1 / 12))) rampFactor)"
  unfolding assms
  by (auto simp: calculateCapExRevenue_def Let_def js_ge_def js_sub_def)

theorem capex_phase_boundary_witness:
  "js_ge (js_add (Fin 9) (Fin 3)) (Fin 12)
   \<and> calculateCapExRevenue None
        [''costSavings'' \<mapsto> VNum (Fin 1200), ''implementationTime'' \<mapsto> VNum (Fin 9)] = Fin 0
   \<and> \<not> js_ge (js_add (Fin 8) (Fin 3)) (Fin 12)
   \<and> js_add (Fin 8) (Fin 3) = Fin 11
   \<and> calculateCapExRevenue None
        [''costSavings'' \<mapsto> VNum (Fin 1200), ''implementationTime'' \<mapsto> VNum (Fin 8)] = Fin 50"
proof -
  let ?d9 = "[''costSavings'' \<mapsto> VNum (Fin 1200), ''implementationTime'' \<mapsto> VNum (Fin 9)]"
  let ?d8 = "[''costSavings'' \<mapsto> VNum (Fin 1200), ''implementationTime'' \<mapsto> VNum (Fin 8)]"
  have g9: "toNumber (getValue ?d9 ''implementationTime'' (SNum (Fin 6))) = Fin 9"
           "toNumber (getValue ?d9 ''rampUpPeriod'' (SNum (Fin 3))) = Fin 3"
    by (simp_all add: getValue_def)
  have g8: "toNumber (getValue ?d8 ''implementationTime'' (SNum (Fin 6))) = Fin 8"
           "toNumber (getValue ?d8 ''rampUpPeriod'' (SNum (Fin 3))) = Fin 3"
           "toNumber (getValue ?d8 ''costSavings'' (SNum (Fin 0))) = Fin 1200"
           "toNumber (getValue ?d8 ''revenueIncrease'' (SNum (Fin 0))) = Fin 0"
    by (simp_all add: getValue_def)
  from capex_phase_boundary [of ?d9 None] capex_phase_boundary [of ?d8 None]
  show ?thesis
    unfolding g9 g8 by (simp add: js_ge_def js_gt_def js_sub_def)
qed






section \<open>Values that are not numbers\<close>

text \<open>
  C9, as amended.  When the key is present and its value is not of type number,
  \<open>getValue\<close> returns \<open>parseFloat(value)\<close> exactly when that parse is neither 0 nor \<open>NaN\<close>
  (an infinite parse is returned), and the supplied default otherwise.  In particular
  the string "0" is replaced by the default.
\<close>

theorem getValue_non_number:
  assumes "data key = Some v" and "\<forall>n. v \<noteq> VNum n"
  shows "getValue data key d =
          (if parseFloatOf v \<noteq> NaN \<and> parseFloatOf v \<noteq> Fin 0
           then SNum (parseFloatOf v) else d)"
  using assms by (cases v) (auto simp: getValue_def truthy_num_def Let_def)

theorem getValue_non_number_witness:
  "[''x'' \<mapsto> VStr ''0''] ''x'' = Some (VStr ''0'') \<and> (\<forall>n. VStr ''0'' \<noteq> VNum n)
   \<and> getValue [''x'' \<mapsto> VStr ''0''] ''x'' (SNum (Fin 7)) = SNum (Fin 7)
   \<and> getValue [''x'' \<mapsto> VStr ''abc''] ''x'' (SNum (Fin 7)) = SNum (Fin 7)
   \<and> getValue [''x'' \<mapsto> VStr ''12.5''] ''x'' (SNum (Fin 7)) = SNum (Fin (25 / 2))"
proof -
  from getValue_non_number [of "[''x'' \<mapsto> VStr ''0'']" "''x''" "VStr ''0''" "SNum (Fin 7)"]
       getValue_non_number [of "[''x'' \<mapsto> VStr ''abc'']" "''x''" "VStr ''abc''" "SNum (Fin 7)"]
       getValue_non_number [of "[''x'' \<mapsto> VStr ''12.5'']" "''x''" "VStr ''12.5''" "SNum (Fin 7)"]
  show ?thesis by (simp add: parse_zero parse_abc parse_12_5)
qed

text \<open>
  C9 as stated fails for the string "Infinity": its parse is not a finite number, and
  \<open>getValue\<close> returns it, not the default 0.
\<close>

theorem getValue_infinity_counterexample:
  "getValue [''x'' \<mapsto> VStr ''Infinity''] ''x'' (SNum (Fin 0)) = SNum (parseFloatOf (VStr ''Infinity''))
   \<and> parseFloatOf (VStr ''Infinity'') = PosInf
   \<and> getValue [''x'' \<mapsto> VStr ''Infinity''] ''x'' (SNum (Fin 0)) \<noteq> SNum (Fin 0)"
  by (simp add: getValue_def parse_Infinity truthy_num_def)

section \<open>Combined P and L\<close>

lemma combineStep_unknown:
  "getCalculation eng tid = None \<Longrightarrow> combineStep eng adj acc tid = acc"
  by (cases acc) (simp add: combineStep_def)

lemma foldl_combine_filter:
  "foldl (combineStep eng adj) acc ids
     = foldl (combineStep eng adj) acc (filter (\<lambda>i. getCalculation eng i \<noteq> None) ids)"
  by (induction ids arbitrary: acc) (auto simp: combineStep_unknown)

text \<open>
  C10.  \<open>calculateCombinedPL\<close> returns for every list of ids (it has no failing path), and
  ids without a cached calculation contribute nothing: the result is that of the list
  with those ids removed.  When no id of the list has a cached calculation, the projects
  are empty, revenue, costs, profit and investment are 0, the ROI is 0 and the payback is
  \<open>Infinity\<close>.
\<close>

theorem combined_skips_unknown:
  "calculateCombinedPL eng ids adj
      = calculateCombinedPL eng (filter (\<lambda>i. getCalculation eng i \<noteq> None) ids) adj
   \<and> ((\<forall>i \<in> set ids. getCalculation eng i = None) \<longrightarrow>
        calculateCombinedPL eng ids adj =
          \<lparr>projects = [],
           totals = \<lparr>t_revenue = Fin 0, t_costs = Fin 0, t_profit = Fin 0,
                     t_investment = Fin 0, t_roi = Fin 0, t_paybackYears = PosInf\<rparr>\<rparr>)"
proof (intro conjI impI)
  show "calculateCombinedPL eng ids adj
      = calculateCombinedPL eng (filter (\<lambda>i. getCalculation eng i \<noteq> None) ids) adj"
    unfolding calculateCombinedPL_def
    by (simp only: foldl_combine_filter [symmetric])
next
  assume "\<forall>i \<in> set ids. getCalculation eng i = None"
  then have "filter (\<lambda>i. getCalculation eng i \<noteq> None) ids = []"
    by (simp add: filter_empty_conv)
  then have "foldl (combineStep eng adj) ([], Fin 0, Fin 0, Fin 0) ids = ([], Fin 0, Fin 0, Fin 0)"
    using foldl_combine_filter [of eng adj "([], Fin 0, Fin 0, Fin 0)" ids] by simp
  then show "calculateCombinedPL eng ids adj =
          \<lparr>projects = [],
           totals = \<lparr>t_revenue = Fin 0, t_costs = Fin 0, t_profit = Fin 0,
                     t_investment = Fin 0, t_roi = Fin 0, t_paybackYears = PosInf\<rparr>\<rparr>"
    by (simp add: calculateCombinedPL_def js_sub_def js_gt_def)
qed

theorem combined_skips_unknown_witness:
  "getCalculation newEngine ''padel'' = None
   \<and> getCalculation newEngine ''nowhere'' = None
   \<and> calculateCombinedPL newEngine [''padel'', ''nowhere'']
        \<lparr>adj_revenue = Some (Fin 2), adj_costs = None\<rparr> =
          \<lparr>projects = [],
           totals = \<lparr>t_revenue = Fin 0, t_costs = Fin 0, t_profit = Fin 0,
                     t_investment = Fin 0, t_roi = Fin 0, t_paybackYears = PosInf\<rparr>\<rparr>"
proof -
  have a: "\<forall>i \<in> set [''padel'', ''nowhere'']. getCalculation newEngine i = None"
    by (simp add: getCalculation_def newEngine_def)
  have b: "calculateCombinedPL newEngine [''padel'', ''nowhere'']
        \<lparr>adj_revenue = Some (Fin 2), adj_costs = None\<rparr> =
          \<lparr>projects = [],
           totals = \<lparr>t_revenue = Fin 0, t_costs = Fin 0, t_profit = Fin 0,
                     t_investment = Fin 0, t_roi = Fin 0, t_paybackYears = PosInf\<rparr>\<rparr>"
    using combined_skips_unknown [of newEngine "[''padel'', ''nowhere'']"
         "\<lparr>adj_revenue = Some (Fin 2), adj_costs = None\<rparr>"] a
    by blast
  have c: "getCalculation newEngine ''padel'' = None"
    and d: "getCalculation newEngine ''nowhere'' = None"
    by (simp_all add: getCalculation_def newEngine_def)
  from b c d show ?thesis by blast
qed

end
